theory Spec2Isabelle
  imports Complex_Main
begin

section \<open>The cooldown manager of WOKCommands (src/util/Cooldowns.ts)\<close>

text \<open>
  The class \<^verbatim>\<open>Cooldowns\<close> keeps a map from keys to expiry dates, mirrors long
  cooldowns into a persistent collection, and decides whether an action may run.
  This theory embeds its methods as HOL functions.  Conventions of the embedding:
  \<^item> a JavaScript number is a \<open>jsnum\<close>: a finite value (a rational), \<open>NaN\<close>, or one
    of the two infinities. The conversion of a string and the product round to the
    nearest double (\<open>toDouble\<close>: ties to even, overflow to infinity, underflow to zero).
    The other operations of the source are applied to whole seconds and milliseconds and
    are computed exactly; their rounding is not modelled;
  \<^item> a \<^verbatim>\<open>Date\<close> is its time value: whole milliseconds since the epoch, or the
    invalid date; the local time zone is a function, as \<open>LocalTZA\<close> is in ECMA-262;
  \<^item> the clock (\<^verbatim>\<open>new Date()\<close>) is a parameter \<open>now\<close> of every method that reads it;
  \<^item> a \<^verbatim>\<open>throw\<close>, or the rejection of an awaited promise, is a result \<open>Inl e\<close>,
    with the state as it was when the exception left the method;
  \<^item> strings are lists of 8-bit characters, read as the code units 0 to 255 (Latin-1).
\<close>

subsection \<open>JavaScript numbers\<close>

datatype jsnum = Fin rat | PInf | NInf | NaN

text \<open>The relational operators: every comparison with \<open>NaN\<close> is false.\<close>

fun js_le :: "jsnum \<Rightarrow> jsnum \<Rightarrow> bool" where
  "js_le NaN b = False"
| "js_le a NaN = False"
| "js_le NInf b = True"
| "js_le a PInf = True"
| "js_le (Fin a) (Fin b) = (a \<le> b)"
| "js_le PInf b = False"
| "js_le a NInf = False"

fun js_lt :: "jsnum \<Rightarrow> jsnum \<Rightarrow> bool" where
  "js_lt NaN b = False"
| "js_lt a NaN = False"
| "js_lt (Fin a) (Fin b) = (a < b)"
| "js_lt NInf NInf = False"
| "js_lt NInf b = True"
| "js_lt PInf b = False"
| "js_lt a PInf = True"
| "js_lt a NInf = False"

definition js_ge :: "jsnum \<Rightarrow> jsnum \<Rightarrow> bool" where
  "js_ge a b = js_le b a"

definition js_gt :: "jsnum \<Rightarrow> jsnum \<Rightarrow> bool" where
  "js_gt a b = js_lt b a"

text \<open>
  The double nearest to a rational \<open>q = \<plusminus> n / d\<close>. With \<open>e\<close> the binary exponent of
  \<open>n / d\<close>, and not less than \<open>-1022\<close>, doubles near \<open>n / d\<close> are the multiples of
  \<open>2^(e - 52)\<close>: the value is divided by that spacing, rounded to a whole number \<open>f\<close>
  (a tie goes to the even neighbour) and multiplied back. A result of \<open>2^1024\<close> or more
  is an infinity; below \<open>2^-1022\<close> the spacing stays \<open>2^-1074\<close>, and what rounds to
  \<open>f = 0\<close> is zero.
\<close>

function bitLength :: "int \<Rightarrow> nat" where
  "bitLength n = (if n \<le> 0 then 0 else Suc (bitLength (n div 2)))"
  by pat_completeness auto
termination
  by (relation "measure nat") auto

declare bitLength.simps [simp del]

definition pow2 :: "int \<Rightarrow> rat" where
  "pow2 k = (if 0 \<le> k then of_int (2 ^ nat k) else 1 / of_int (2 ^ nat (- k)))"

text \<open>The whole part of the binary logarithm of \<open>n / d\<close>, for \<open>n > 0\<close> and \<open>d > 0\<close>.\<close>

definition floorLog2 :: "int \<Rightarrow> int \<Rightarrow> int" where
  "floorLog2 n d =
     (let e0 = int (bitLength n) - int (bitLength d)
      in if (if 0 \<le> e0 then 2 ^ nat e0 * d \<le> n else d \<le> 2 ^ nat (- e0) * n) then e0
         else e0 - 1)"

text \<open>The whole number nearest to \<open>n / d\<close>, the even one of two that are equally near.\<close>

definition roundHalfEven :: "int \<Rightarrow> int \<Rightarrow> int" where
  "roundHalfEven n d =
     (let f = n div d; r = n mod d
      in if 2 * r < d then f else if d < 2 * r then f + 1 else if even f then f else f + 1)"

definition toDouble :: "rat \<Rightarrow> jsnum" where
  "toDouble q =
     (if q = 0 then Fin 0
      else
        (let n = \<bar>fst (quotient_of q)\<bar>;
             d = snd (quotient_of q);
             e = max (floorLog2 n d) (- 1022);
             s = 52 - e;
             f = (if 0 \<le> s then roundHalfEven (n * 2 ^ nat s) d
                  else roundHalfEven n (d * 2 ^ nat (- s)))
         in if 1023 < e \<or> (e = 1023 \<and> f = 2 ^ 53) then (if 0 < q then PInf else NInf)
            else Fin ((if 0 < q then of_int f else - of_int f) * pow2 (- s))))"

text \<open>
  Addition (exact) and multiplication (rounded). The sign of a zero is not tracked.
\<close>

fun js_add :: "jsnum \<Rightarrow> jsnum \<Rightarrow> jsnum" where
  "js_add NaN b = NaN"
| "js_add a NaN = NaN"
| "js_add (Fin a) (Fin b) = Fin (a + b)"
| "js_add PInf NInf = NaN"
| "js_add NInf PInf = NaN"
| "js_add PInf b = PInf"
| "js_add NInf b = NInf"
| "js_add a PInf = PInf"
| "js_add a NInf = NInf"

fun js_neg :: "jsnum \<Rightarrow> jsnum" where
  "js_neg (Fin a) = Fin (- a)"
| "js_neg PInf = NInf"
| "js_neg NInf = PInf"
| "js_neg NaN = NaN"

fun js_mul :: "jsnum \<Rightarrow> jsnum \<Rightarrow> jsnum" where
  "js_mul NaN b = NaN"
| "js_mul a NaN = NaN"
| "js_mul (Fin a) (Fin b) = toDouble (a * b)"
| "js_mul (Fin a) b = (if a = 0 then NaN else if 0 < a then b else js_neg b)"
| "js_mul a (Fin b) = (if b = 0 then NaN else if 0 < b then a else js_neg a)"
| "js_mul PInf b = b"
| "js_mul NInf b = js_neg b"

text \<open>
  Division and remainder by a positive finite constant \<open>c\<close>, the only divisors of the
  source. The remainder \<^verbatim>\<open>%\<close> truncates: its sign is the dividend's.
\<close>

definition trunc :: "rat \<Rightarrow> int" where
  "trunc q = (if 0 \<le> q then \<lfloor>q\<rfloor> else \<lceil>q\<rceil>)"

fun js_div :: "jsnum \<Rightarrow> rat \<Rightarrow> jsnum" where
  "js_div (Fin a) c = Fin (a / c)"
| "js_div a c = a"

fun js_rem :: "jsnum \<Rightarrow> rat \<Rightarrow> jsnum" where
  "js_rem (Fin a) c = Fin (a - c * of_int (trunc (a / c)))"
| "js_rem a c = NaN"

fun Math_floor :: "jsnum \<Rightarrow> jsnum" where
  "Math_floor (Fin a) = Fin (of_int \<lfloor>a\<rfloor>)"
| "Math_floor a = a"

text \<open>
  Number to string, as a template literal does it, for the values the source prints:
  whole numbers (below \<open>10^21\<close>, where JavaScript still prints every digit), \<open>NaN\<close> and
  the infinities.
\<close>

fun digitsOf :: "nat \<Rightarrow> string" where
  "digitsOf n = (if n < 10 then [''0123456789'' ! n]
                 else digitsOf (n div 10) @ [''0123456789'' ! (n mod 10)])"

declare digitsOf.simps [simp del]

fun js_toString :: "jsnum \<Rightarrow> string" where
  "js_toString (Fin a) = (if a < 0 then ''-'' else '''') @ digitsOf (nat \<bar>\<lfloor>a\<rfloor>\<bar>)"
| "js_toString PInf = ''Infinity''"
| "js_toString NInf = ''-Infinity''"
| "js_toString NaN = ''NaN''"

subsection \<open>Strings: split, toLowerCase, replace\<close>

text \<open>\<^verbatim>\<open>s.split(' ')\<close>: the pieces between single spaces; never the empty list.\<close>

fun split_space :: "string \<Rightarrow> string list" where
  "split_space [] = [[]]"
| "split_space (c # cs) =
     (if c = CHR '' '' then [] # split_space cs
      else (case split_space cs of
              w # ws \<Rightarrow> (c # w) # ws
            | [] \<Rightarrow> [[c]]))"

text \<open>
  The capital letters among the code units 0 to 255 and their small letters: \<open>A\<close> to
  \<open>Z\<close>, and \<open>0xC0\<close> to \<open>0xDE\<close> without the multiplication sign \<open>0xD7\<close>.
\<close>

definition upperChars :: "char list" where
  "upperChars =
     [CHR ''A'', CHR ''B'', CHR ''C'', CHR ''D'', CHR ''E'', CHR ''F'', CHR ''G'', CHR
      ''H'', CHR ''I'', CHR ''J'', CHR ''K'', CHR ''L'', CHR ''M'', CHR ''N'', CHR
      ''O'', CHR ''P'', CHR ''Q'', CHR ''R'', CHR ''S'', CHR ''T'', CHR ''U'', CHR
      ''V'', CHR ''W'', CHR ''X'', CHR ''Y'', CHR ''Z'', CHR 0xC0, CHR 0xC1, CHR 0xC2,
      CHR 0xC3, CHR 0xC4, CHR 0xC5, CHR 0xC6, CHR 0xC7, CHR 0xC8, CHR 0xC9, CHR 0xCA,
      CHR 0xCB, CHR 0xCC, CHR 0xCD, CHR 0xCE, CHR 0xCF, CHR 0xD0, CHR 0xD1, CHR 0xD2,
      CHR 0xD3, CHR 0xD4, CHR 0xD5, CHR 0xD6, CHR 0xD8, CHR 0xD9, CHR 0xDA, CHR 0xDB,
      CHR 0xDC, CHR 0xDD, CHR 0xDE]"

definition lowerChars :: "char list" where
  "lowerChars =
     [CHR ''a'', CHR ''b'', CHR ''c'', CHR ''d'', CHR ''e'', CHR ''f'', CHR ''g'', CHR
      ''h'', CHR ''i'', CHR ''j'', CHR ''k'', CHR ''l'', CHR ''m'', CHR ''n'', CHR
      ''o'', CHR ''p'', CHR ''q'', CHR ''r'', CHR ''s'', CHR ''t'', CHR ''u'', CHR
      ''v'', CHR ''w'', CHR ''x'', CHR ''y'', CHR ''z'', CHR 0xE0, CHR 0xE1, CHR 0xE2,
      CHR 0xE3, CHR 0xE4, CHR 0xE5, CHR 0xE6, CHR 0xE7, CHR 0xE8, CHR 0xE9, CHR 0xEA,
      CHR 0xEB, CHR 0xEC, CHR 0xED, CHR 0xEE, CHR 0xEF, CHR 0xF0, CHR 0xF1, CHR 0xF2,
      CHR 0xF3, CHR 0xF4, CHR 0xF5, CHR 0xF6, CHR 0xF8, CHR 0xF9, CHR 0xFA, CHR 0xFB,
      CHR 0xFC, CHR 0xFD, CHR 0xFE]"

definition toLowerChar :: "char \<Rightarrow> char" where
  "toLowerChar c = (case map_of (zip upperChars lowerChars) c of Some l \<Rightarrow> l | None \<Rightarrow> c)"

definition toLowerCase :: "string \<Rightarrow> string" where
  "toLowerCase s = map toLowerChar s"

text \<open>
  \<^verbatim>\<open>s.replace(pat, by)\<close> with a string pattern replaces the first occurrence only. The
  source's replacement string is made of digits, letters and spaces, so the \<^verbatim>\<open>$\<close>
  patterns of a replacement string never occur.
\<close>

fun js_replace :: "string \<Rightarrow> string \<Rightarrow> string \<Rightarrow> string" where
  "js_replace [] pat by = (if pat = [] then by else [])"
| "js_replace (c # cs) pat by =
     (if take (length pat) (c # cs) = pat then by @ drop (length pat) (c # cs)
      else c # js_replace cs pat by)"

subsection \<open>String to number (the unary \<^verbatim>\<open>+\<close>)\<close>

text \<open>
  White space and line terminators among the code units 0 to 255: tab, line feed,
  vertical tab, form feed, carriage return, space and the no-break space \<open>0xA0\<close>.
\<close>

definition isWhiteSpace :: "char \<Rightarrow> bool" where
  "isWhiteSpace c =
     (c \<in> set [CHR 0x09, CHR 0x0A, CHR 0x0B, CHR 0x0C, CHR 0x0D, CHR '' '', CHR 0xA0])"

definition trimString :: "string \<Rightarrow> string" where
  "trimString s = rev (dropWhile isWhiteSpace (rev (dropWhile isWhiteSpace s)))"

definition digitOf :: "nat \<Rightarrow> char \<Rightarrow> nat option" where
  "digitOf base c =
     (case map_of (zip ''0123456789abcdef'' [0, 1, 2, 3, 4, 5, 6, 7, 8, 9, 10, 11, 12, 13, 14, 15]) (toLowerChar c) of
        Some d \<Rightarrow> (if d < base then Some d else None)
      | None \<Rightarrow> None)"

fun parseDigitsAcc :: "nat \<Rightarrow> int \<Rightarrow> string \<Rightarrow> int option" where
  "parseDigitsAcc base acc [] = Some acc"
| "parseDigitsAcc base acc (c # cs) =
     (case digitOf base c of
        None \<Rightarrow> None
      | Some d \<Rightarrow> parseDigitsAcc base (acc * int base + int d) cs)"

definition parseDigits :: "nat \<Rightarrow> string \<Rightarrow> int option" where
  "parseDigits base s = (if s = [] then None else parseDigitsAcc base 0 s)"

definition isDigit :: "char \<Rightarrow> bool" where
  "isDigit c = (digitOf 10 c \<noteq> None)"

text \<open>The exponent part: empty, or \<^verbatim>\<open>e\<close>/\<^verbatim>\<open>E\<close>, an optional sign and digits.\<close>

definition parseExponent :: "string \<Rightarrow> int option" where
  "parseExponent s =
     (case s of
        [] \<Rightarrow> Some 0
      | c # r \<Rightarrow>
          if c = CHR ''e'' \<or> c = CHR ''E'' then
            (case r of
               [] \<Rightarrow> None
             | d # ds \<Rightarrow>
                 if d = CHR ''-'' then map_option uminus (parseDigits 10 ds)
                 else if d = CHR ''+'' then parseDigits 10 ds
                 else parseDigits 10 r)
          else None)"

definition scale10 :: "rat \<Rightarrow> int \<Rightarrow> rat" where
  "scale10 m e = (if 0 \<le> e then m * 10 ^ nat e else m / 10 ^ nat (- e))"

text \<open>
  An unsigned decimal literal: digits, an optional fraction, an optional exponent, with
  a digit before or after the point. The result is its mathematical value.
\<close>

definition parseUnsignedDecimal :: "string \<Rightarrow> rat option" where
  "parseUnsignedDecimal s =
     (let ip = takeWhile isDigit s;
          r1 = dropWhile isDigit s;
          fp = (case r1 of [] \<Rightarrow> [] | c # t \<Rightarrow> if c = CHR ''.'' then takeWhile isDigit t else []);
          r2 = (case r1 of [] \<Rightarrow> [] | c # t \<Rightarrow> if c = CHR ''.'' then dropWhile isDigit t else r1)
      in if ip = [] \<and> fp = [] then None
         else (case parseExponent r2 of
                 None \<Rightarrow> None
               | Some e \<Rightarrow>
                   (case parseDigitsAcc 10 0 (ip @ fp) of
                      None \<Rightarrow> None
                    | Some m \<Rightarrow> Some (scale10 (of_int m) (e - int (length fp))))))"

text \<open>Binary, octal and hexadecimal literals: \<^verbatim>\<open>0b\<close>, \<^verbatim>\<open>0o\<close>, \<^verbatim>\<open>0x\<close> and digits, unsigned.\<close>

definition parseNonDecimal :: "string \<Rightarrow> int option" where
  "parseNonDecimal s =
     (case s of
        c0 # c1 # ds \<Rightarrow>
          if c0 \<noteq> CHR ''0'' then None
          else if toLowerChar c1 = CHR ''x'' then parseDigits 16 ds
          else if toLowerChar c1 = CHR ''o'' then parseDigits 8 ds
          else if toLowerChar c1 = CHR ''b'' then parseDigits 2 ds
          else None
      | _ \<Rightarrow> None)"

text \<open>
  The number a string stands for: white space is trimmed, the empty string is 0, and the
  mathematical value of a literal is rounded to the nearest double.
\<close>

definition toNumber :: "string \<Rightarrow> jsnum" where
  "toNumber s =
     (let t = trimString s in
      if t = [] then Fin 0
      else (case parseNonDecimal t of
              Some n \<Rightarrow> toDouble (of_int n)
            | None \<Rightarrow>
                (let neg = (hd t = CHR ''-'');
                     u = (if hd t = CHR ''-'' \<or> hd t = CHR ''+'' then tl t else t)
                 in if u = ''Infinity'' then (if neg then NInf else PInf)
                    else (case parseUnsignedDecimal u of
                            None \<Rightarrow> NaN
                          | Some q \<Rightarrow> toDouble (if neg then - q else q)))))"

subsection \<open>Dates\<close>

text \<open>
  A date is its time value. \<open>TimeClip\<close> makes a time value beyond the range of
  \<^verbatim>\<open>Date\<close> (8.64e15 ms either side of the epoch) the invalid date.
\<close>

datatype date = Date int | InvalidDate

definition TimeClip :: "int \<Rightarrow> date" where
  "TimeClip t = (if 8640000000000000 < \<bar>t\<bar> then InvalidDate else Date t)"

text \<open>
  The local time zone, as \<open>LocalTZA(t, isUTC)\<close> of ECMA-262: the offset of local time
  from UTC in milliseconds, at the UTC time \<open>t\<close> when \<open>isUTC\<close> holds and at the local
  time \<open>t\<close> otherwise (a local time that a forward change of the clocks skips takes the
  offset before the change).
\<close>

type_synonym zone = "int \<Rightarrow> bool \<Rightarrow> int"

definition LocalTime :: "zone \<Rightarrow> int \<Rightarrow> int" where
  "LocalTime tz t = t + tz t True"

definition UTC :: "zone \<Rightarrow> int \<Rightarrow> int" where
  "UTC tz t = t - tz t False"

definition SecFromTime :: "int \<Rightarrow> int" where
  "SecFromTime t = (t div 1000) mod 60"

definition getSeconds :: "zone \<Rightarrow> int \<Rightarrow> int" where
  "getSeconds tz t = SecFromTime (LocalTime tz t)"

text \<open>
  \<^verbatim>\<open>d.setSeconds(sec)\<close> on a valid date with time value \<open>t\<close>: in local time the
  seconds field is replaced by \<open>sec\<close> truncated to a whole number and the other fields
  stay; the result is taken back to UTC and clipped. A \<open>sec\<close> that is not finite gives
  the invalid date.
\<close>

definition setSeconds :: "zone \<Rightarrow> int \<Rightarrow> jsnum \<Rightarrow> date" where
  "setSeconds tz t sec =
     (case sec of
        Fin q \<Rightarrow>
          (let local = LocalTime tz t
           in TimeClip (UTC tz (local - 1000 * SecFromTime local + 1000 * trunc q)))
      | _ \<Rightarrow> InvalidDate)"

definition getTime :: "date \<Rightarrow> jsnum" where
  "getTime d = (case d of Date t \<Rightarrow> Fin (of_int t) | InvalidDate \<Rightarrow> NaN)"

subsection \<open>The tables of the module\<close>

text \<open>
  A property read of the object literal \<^verbatim>\<open>cooldownDurations\<close> gives the number stored
  under an own key, \<^verbatim>\<open>undefined\<close> under a name the object does not have, and the
  member of \<^verbatim>\<open>Object.prototype\<close> under a name it inherits. The name read here is
  lower-cased first; the inherited names that are their own lower case are
  \<^verbatim>\<open>constructor\<close> and \<^verbatim>\<open>__proto__\<close>, both objects.
\<close>

datatype jsval = JNumber jsnum | JUndefined | JObject

definition cooldownDurations :: "string \<Rightarrow> jsval" where
  "cooldownDurations k =
     (if k = ''s'' then JNumber (Fin 1)
      else if k = ''m'' then JNumber (Fin 60)
      else if k = ''h'' then JNumber (Fin (60 * 60))
      else if k = ''d'' then JNumber (Fin (60 * 60 * 24))
      else if k = ''constructor'' \<or> k = ''__proto__'' then JObject
      else JUndefined)"

fun truthy :: "jsval \<Rightarrow> bool" where
  "truthy (JNumber (Fin a)) = (a \<noteq> 0)"
| "truthy (JNumber NaN) = False"
| "truthy (JNumber a) = True"
| "truthy JUndefined = False"
| "truthy JObject = True"

text \<open>The number an operand of \<^verbatim>\<open>*\<close> stands for: a function or a plain object is \<open>NaN\<close>.\<close>

fun numberOf :: "jsval \<Rightarrow> jsnum" where
  "numberOf (JNumber a) = a"
| "numberOf JUndefined = NaN"
| "numberOf JObject = NaN"

definition cooldownTypes :: "string list" where
  "cooldownTypes = [''perUser'', ''perUserPerGuild'', ''perGuild'', ''global'']"

subsection \<open>Errors, requests and the state\<close>

text \<open>
  One constructor for each \<^verbatim>\<open>throw\<close> of the class, in the order of the source, the
  \<^verbatim>\<open>TypeError\<close> of calling \<^verbatim>\<open>split\<close> on an absent duration, and the rejection
  of an awaited call of the database.
\<close>

datatype error =
    InvalidDuration
  | UnknownDurationType
  | InvalidQuantity
  | UsedOutsideGuild
  | InvalidCooldownType
  | TypeError
  | StoreError

text \<open>The error kinds of the specification, as sets of throw sites.\<close>

definition MalformedDurationError :: "error \<Rightarrow> bool" where
  "MalformedDurationError e = (e = InvalidDuration \<or> e = UnknownDurationType \<or> e = InvalidQuantity)"

definition InvalidScopeError :: "error \<Rightarrow> bool" where
  "InvalidScopeError e = (e = UsedOutsideGuild)"

definition UnknownScopeError :: "error \<Rightarrow> bool" where
  "UnknownScopeError e = (e = InvalidCooldownType)"

datatype duration = DNumber jsnum | DString string

text \<open>\<^verbatim>\<open>InternalCooldownConfig\<close>: an absent optional field is \<open>None\<close>.\<close>

record request =
  cooldownType :: string
  userId :: string
  actionId :: string
  guildId :: "string option"
  duration :: "duration option"
  errorMessage :: "string option"

text \<open>
  A key is what \<^verbatim>\<open>getKey\<close> returns: a string, or \<^verbatim>\<open>undefined\<close> (\<open>None\<close>) when the
  cooldown type is none of the four.
\<close>

type_synonym key = "string option"

text \<open>
  The state the methods run in: the fields of the \<^verbatim>\<open>Cooldowns\<close> object
  (\<open>this_botOwners\<close> is \<^verbatim>\<open>this._instance.botOwners\<close>), the collection behind
  \<^verbatim>\<open>cooldownSchema\<close> as a map from ids to expiry dates, and two facts of the
  environment: whether the database rejects the call made to it, and the local time
  zone of the process.
\<close>

record state =
  this_cooldowns :: "key \<rightharpoonup> date"
  this_botOwners :: "string list"
  this_errorMessage :: string
  this_botOwnersBypass :: bool
  this_dbRequired :: jsnum
  cooldownSchema :: "key \<rightharpoonup> date"
  cooldownSchema_rejects :: bool
  env_LocalTZA :: zone

text \<open>
  Modelled from the spec: the module \<^verbatim>\<open>models/cooldown-schema\<close> is not among the
  sources. The specification describes one collection of records \<open>{id, expires}\<close> with
  the operations upsert-by-id and delete-by-id (delete is a no-op when the record is
  absent), and durable writes that can fail, the failure propagating to the caller of
  the method. \<open>findOneAndUpdate\<close> is the call with \<^verbatim>\<open>upsert: true\<close>, \<open>deleteOne\<close> the
  call with the id as filter; a call that is rejected leaves the collection as it was.
\<close>

definition findOneAndUpdate ::
  "bool \<Rightarrow> key \<Rightarrow> date \<Rightarrow> (key \<rightharpoonup> date) \<Rightarrow> error + (key \<rightharpoonup> date)" where
  "findOneAndUpdate rejects k expires coll =
     (if rejects then Inl StoreError else Inr (coll(k \<mapsto> expires)))"

definition deleteOne :: "bool \<Rightarrow> key \<Rightarrow> (key \<rightharpoonup> date) \<Rightarrow> error + (key \<rightharpoonup> date)" where
  "deleteOne rejects k coll = (if rejects then Inl StoreError else Inr (coll(k := None)))"

text \<open>
  The constructor's defaults (its call of \<^verbatim>\<open>loadCooldowns\<close> is not modelled), with
  the collection and the environment the object is created in.
\<close>

record CooldownConfig =
  config_errorMessage :: "string option"
  config_botOwnersBypass :: "bool option"
  config_dbRequired :: "jsnum option"

definition new_Cooldowns ::
  "string list \<Rightarrow> CooldownConfig \<Rightarrow> (key \<rightharpoonup> date) \<Rightarrow> bool \<Rightarrow> zone \<Rightarrow> state" where
  "new_Cooldowns botOwners cooldownConfig coll rejects tz =
     \<lparr> this_cooldowns = Map.empty,
       this_botOwners = botOwners,
       this_errorMessage =
         (case config_errorMessage cooldownConfig of
            None \<Rightarrow> ''Please wait {TIME} before doing that again.''
          | Some m \<Rightarrow> m),
       this_botOwnersBypass =
         (case config_botOwnersBypass cooldownConfig of None \<Rightarrow> False | Some b \<Rightarrow> b),
       this_dbRequired =
         (case config_dbRequired cooldownConfig of None \<Rightarrow> Fin 300 | Some n \<Rightarrow> n),
       cooldownSchema = coll,
       cooldownSchema_rejects = rejects,
       env_LocalTZA = tz \<rparr>"

subsection \<open>The methods\<close>

text \<open>
  Each method is the source's, statement by statement. In \<^verbatim>\<open>start\<close> the awaited
  upsert stands before the write of the cache (lines 203 to 218), in
  \<^verbatim>\<open>updateCooldown\<close> and \<^verbatim>\<open>cancelCooldown\<close> after it.
\<close>

fun verifyCooldown :: "duration \<Rightarrow> error + jsnum" where
  "verifyCooldown (DNumber n) = Inr n"
| "verifyCooldown (DString s) =
     (let split = split_space s in
      if length split \<noteq> 2 then Inl InvalidDuration
      else
        (let quantity = toNumber (split ! 0);
             type = toLowerCase (split ! 1)
         in if \<not> truthy (cooldownDurations type) then Inl UnknownDurationType
            else if js_le quantity (Fin 0) then Inl InvalidQuantity
            else Inr (js_mul quantity (numberOf (cooldownDurations type)))))"

declare verifyCooldown.simps [simp del]

text \<open>A template literal prints an absent guild id as \<^verbatim>\<open>undefined\<close>.\<close>

definition interpolate :: "string option \<Rightarrow> string" where
  "interpolate g = (case g of None \<Rightarrow> ''undefined'' | Some s \<Rightarrow> s)"

definition falsy :: "string option \<Rightarrow> bool" where
  "falsy g = (g = None \<or> g = Some [])"

definition getKey :: "string \<Rightarrow> string \<Rightarrow> string \<Rightarrow> string option \<Rightarrow> error + key" where
  "getKey cooldownType' userId' actionId' guildId' =
     (let isPerUser = (cooldownType' = cooldownTypes ! 0);
          isPerUserPerGuild = (cooldownType' = cooldownTypes ! 1);
          isPerGuild = (cooldownType' = cooldownTypes ! 2);
          isGlobal = (cooldownType' = cooldownTypes ! 3)
      in if (isPerUserPerGuild \<or> isPerGuild) \<and> falsy guildId' then Inl UsedOutsideGuild
         else if isPerUser then Inr (Some (userId' @ ''-'' @ actionId'))
         else if isPerUserPerGuild then
           Inr (Some (userId' @ ''-'' @ interpolate guildId' @ ''-'' @ actionId'))
         else if isPerGuild then Inr (Some (interpolate guildId' @ ''-'' @ actionId'))
         else if isGlobal then Inr (Some actionId')
         else Inr None)"

definition getKeyFromCooldownUsage :: "request \<Rightarrow> error + key" where
  "getKeyFromCooldownUsage cooldownUsage =
     getKey (cooldownType cooldownUsage) (userId cooldownUsage) (actionId cooldownUsage)
       (guildId cooldownUsage)"

definition canBypass :: "state \<Rightarrow> string \<Rightarrow> bool" where
  "canBypass this uid = (this_botOwnersBypass this \<and> uid \<in> set (this_botOwners this))"

definition cancelCooldown :: "request \<Rightarrow> state \<Rightarrow> (error + unit) \<times> state" where
  "cancelCooldown cooldownUsage this =
     (case getKeyFromCooldownUsage cooldownUsage of
        Inl e \<Rightarrow> (Inl e, this)
      | Inr k \<Rightarrow>
          (let this1 = this\<lparr> this_cooldowns := (this_cooldowns this)(k := None) \<rparr>
           in case deleteOne (cooldownSchema_rejects this1) k (cooldownSchema this1) of
                Inl e \<Rightarrow> (Inl e, this1)
              | Inr coll \<Rightarrow> (Inr (), this1\<lparr> cooldownSchema := coll \<rparr>)))"

definition js_sub :: "jsnum \<Rightarrow> jsnum \<Rightarrow> jsnum" where
  "js_sub a b = js_add a (js_neg b)"

text \<open>\<^verbatim>\<open>(expires.getTime() - now.getTime()) / 1000\<close>\<close>

definition secondsBetween :: "date \<Rightarrow> int \<Rightarrow> jsnum" where
  "secondsBetween expires now = js_div (js_sub (getTime expires) (Fin (of_int now))) 1000"

definition updateCooldown :: "int \<Rightarrow> request \<Rightarrow> date \<Rightarrow> state \<Rightarrow> (error + unit) \<times> state" where
  "updateCooldown now cooldownUsage expires this =
     (case getKeyFromCooldownUsage cooldownUsage of
        Inl e \<Rightarrow> (Inl e, this)
      | Inr k \<Rightarrow>
          (let this1 = this\<lparr> this_cooldowns := (this_cooldowns this)(k \<mapsto> expires) \<rparr>;
               secondsDiff = secondsBetween expires now
           in if js_gt secondsDiff (this_dbRequired this1) then
                (case findOneAndUpdate (cooldownSchema_rejects this1) k expires
                        (cooldownSchema this1) of
                   Inl e \<Rightarrow> (Inl e, this1)
                 | Inr coll \<Rightarrow> (Inr (), this1\<lparr> cooldownSchema := coll \<rparr>))
              else (Inr (), this1)))"

definition orElse :: "'a option \<Rightarrow> 'a \<Rightarrow> 'a" where
  "orElse x d = (case x of None \<Rightarrow> d | Some v \<Rightarrow> v)"

definition start :: "int \<Rightarrow> request \<Rightarrow> state \<Rightarrow> (error + unit) \<times> state" where
  "start now cooldownUsage this =
     (if canBypass this (userId cooldownUsage) then (Inr (), this)
      else if cooldownType cooldownUsage \<notin> set cooldownTypes then (Inl InvalidCooldownType, this)
      else
        (case duration cooldownUsage of
           None \<Rightarrow> (Inl TypeError, this)
         | Some dur \<Rightarrow>
             (case verifyCooldown dur of
                Inl e \<Rightarrow> (Inl e, this)
              | Inr seconds \<Rightarrow>
                  (case getKey (cooldownType cooldownUsage) (userId cooldownUsage)
                          (actionId cooldownUsage) (Some (orElse (guildId cooldownUsage) [])) of
                     Inl e \<Rightarrow> (Inl e, this)
                   | Inr k \<Rightarrow>
                       (let tz = env_LocalTZA this;
                            expires =
                              setSeconds tz now (js_add (Fin (of_int (getSeconds tz now))) seconds)
                        in if js_ge seconds (this_dbRequired this) then
                             (case findOneAndUpdate (cooldownSchema_rejects this) k expires
                                     (cooldownSchema this) of
                                Inl e \<Rightarrow> (Inl e, this)
                              | Inr coll \<Rightarrow>
                                  (Inr (),
                                   this\<lparr> cooldownSchema := coll,
                                         this_cooldowns := (this_cooldowns this)(k \<mapsto> expires) \<rparr>))
                           else
                             (Inr (),
                              this\<lparr> this_cooldowns := (this_cooldowns this)(k \<mapsto> expires) \<rparr>))))))"

text \<open>
  The result of \<^verbatim>\<open>canRunAction\<close>: \<^verbatim>\<open>true\<close> is \<open>Allowed\<close>, a string is \<open>Denied\<close>
  with that string.
\<close>

datatype outcome = Allowed | Denied string

text \<open>The rendering of the remaining seconds, lines 248 to 257 of the source.\<close>

definition renderTime :: "jsnum \<Rightarrow> string" where
  "renderTime secondsDiff =
     (let d = Math_floor (js_div secondsDiff (3600 * 24));
          h = Math_floor (js_div (js_rem secondsDiff (3600 * 24)) 3600);
          m = Math_floor (js_div (js_rem secondsDiff 3600) 60);
          s = Math_floor (js_rem secondsDiff 60);
          time0 = [];
          time1 = (if js_gt d (Fin 0) then time0 @ js_toString d @ ''d '' else time0);
          time2 = (if js_gt h (Fin 0) then time1 @ js_toString h @ ''h '' else time1);
          time3 = (if js_gt m (Fin 0) then time2 @ js_toString m @ ''m '' else time2)
      in time3 @ js_toString s @ ''s'')"

definition canRunAction :: "int \<Rightarrow> request \<Rightarrow> state \<Rightarrow> (error + outcome) \<times> state" where
  "canRunAction now cooldownUsage this =
     (if canBypass this (userId cooldownUsage) then (Inr Allowed, this)
      else
        (case getKey (cooldownType cooldownUsage) (userId cooldownUsage)
                (actionId cooldownUsage) (Some (orElse (guildId cooldownUsage) [])) of
           Inl e \<Rightarrow> (Inl e, this)
         | Inr k \<Rightarrow>
             (case this_cooldowns this k of
                None \<Rightarrow> (Inr Allowed, this)
              | Some expires \<Rightarrow>
                  if js_gt (Fin (of_int now)) (getTime expires) then
                    (Inr Allowed, this\<lparr> this_cooldowns := (this_cooldowns this)(k := None) \<rparr>)
                  else
                    (Inr (Denied (js_replace
                            (orElse (errorMessage cooldownUsage) (this_errorMessage this))
                            ''{TIME}''
                            (renderTime (secondsBetween expires now)))),
                     this))))"

subsection \<open>The rendering in whole seconds\<close>

text \<open>
  The remaining time as the specification describes it, computed on the whole number of
  remaining seconds by integer division: days, hours, minutes and seconds, where each of
  the first three is printed when it is positive and the seconds are always printed.
  This is the reference that \<open>renderTime\<close> is compared with.
\<close>

definition renderUnits :: "int \<Rightarrow> string" where
  "renderUnits secs =
     (let d = secs div 86400;
          h = secs mod 86400 div 3600;
          m = secs mod 3600 div 60;
          s = secs mod 60
      in (if 0 < d then digitsOf (nat d) @ ''d '' else [])
         @ (if 0 < h then digitsOf (nat h) @ ''h '' else [])
         @ (if 0 < m then digitsOf (nat m) @ ''m '' else [])
         @ digitsOf (nat s) @ ''s'')"

subsection \<open>Example requests and states\<close>

definition defaultConfig :: CooldownConfig where
  "defaultConfig =
     \<lparr> config_errorMessage = None, config_botOwnersBypass = None, config_dbRequired = None \<rparr>"

text \<open>A zone that is UTC, and a zone whose clocks go forward one hour at time 0.\<close>

definition utcZone :: zone where
  "utcZone t isUTC = 0"


text \<open>A new object with the default configuration, a database that accepts, in UTC.\<close>

definition freshState :: state where
  "freshState = new_Cooldowns [] defaultConfig Map.empty False utcZone"

definition perUserRequest :: request where
  "perUserRequest =
     \<lparr> cooldownType = ''perUser'', userId = ''u'', actionId = ''a'',
       guildId = None, duration = Some (DString ''10 s''), errorMessage = None \<rparr>"

definition globalRequest :: request where
  "globalRequest =
     \<lparr> cooldownType = ''global'', userId = ''v'', actionId = ''u-a'',
       guildId = None, duration = Some (DString ''10 s''), errorMessage = None \<rparr>"

text \<open>A bot owner who bypasses cooldowns, with a window already stored under their key.\<close>

definition ownerState :: state where
  "ownerState =
     (new_Cooldowns [''owner'']
        \<lparr> config_errorMessage = None, config_botOwnersBypass = Some True,
          config_dbRequired = None \<rparr>
        Map.empty False utcZone)
     \<lparr> this_cooldowns := [Some ''owner-command_ping'' \<mapsto> Date 5000] \<rparr>"

definition ownerRequest :: request where
  "ownerRequest =
     \<lparr> cooldownType = ''perUser'', userId = ''owner'', actionId = ''command_ping'',
       guildId = None, duration = Some (DString ''10 m''), errorMessage = None \<rparr>"

text \<open>
  A ten-minute window of user \<open>u\<close> for action \<open>a\<close>, started at time 0: it expires at
  600000 ms and, being longer than the threshold, is in the durable collection too.
\<close>

definition longRequest :: request where
  "longRequest = perUserRequest\<lparr> duration := Some (DString ''10 m'') \<rparr>"

definition windowState :: state where
  "windowState =
     freshState\<lparr> this_cooldowns := [Some ''u-a'' \<mapsto> Date 600000],
                   cooldownSchema := [Some ''u-a'' \<mapsto> Date 600000] \<rparr>"

text \<open>A window with one day and thirty seconds left at time 0.\<close>

definition dayState :: state where
  "dayState = freshState\<lparr> this_cooldowns := [Some ''u-a'' \<mapsto> Date 86430000] \<rparr>"






text \<open>A request of guild scope made outside a guild.\<close>

definition guildRequest :: request where
  "guildRequest =
     \<lparr> cooldownType = ''perGuild'', userId = ''u'', actionId = ''a'',
       guildId = None, duration = Some (DString ''10 m''), errorMessage = None \<rparr>"

section \<open>Properties\<close>

subsection \<open>The example state\<close>

lemma freshState_simps [simp]:
  "this_cooldowns freshState = Map.empty"
  "cooldownSchema freshState = Map.empty"
  "this_dbRequired freshState = Fin 300"
  "cooldownSchema_rejects freshState = False"
  "env_LocalTZA freshState = utcZone"
  "this_errorMessage freshState = ''Please wait {TIME} before doing that again.''"
  by (simp_all add: freshState_def new_Cooldowns_def defaultConfig_def)

lemma utcZone_times [simp]:
  "LocalTime utcZone t = t" "UTC utcZone t = t"
  by (simp_all add: LocalTime_def UTC_def utcZone_def)

subsection \<open>Key derivation\<close>

lemma getKey_perUser: "getKey ''perUser'' u a g = Inr (Some (u @ ''-'' @ a))"
  by (simp add: getKey_def cooldownTypes_def Let_def)

lemma getKey_global: "getKey ''global'' u a g = Inr (Some a)"
  by (simp add: getKey_def cooldownTypes_def Let_def)

lemma getKey_perUserPerGuild:
  "getKey ''perUserPerGuild'' u a g =
     (if falsy g then Inl UsedOutsideGuild
      else Inr (Some (u @ ''-'' @ interpolate g @ ''-'' @ a)))"
  by (simp add: getKey_def cooldownTypes_def Let_def)

lemma getKey_perGuild:
  "getKey ''perGuild'' u a g =
     (if falsy g then Inl UsedOutsideGuild else Inr (Some (interpolate g @ ''-'' @ a)))"
  by (simp add: getKey_def cooldownTypes_def Let_def)

text \<open>A prefix without a hyphen is recovered from a key: it ends at the first hyphen.\<close>

lemma append_dash_inject:
  assumes "CHR ''-'' \<notin> set u" and "CHR ''-'' \<notin> set u'"
  shows "(u @ CHR ''-'' # r = u' @ CHR ''-'' # r') = (u = u' \<and> r = r')"
  using assms
proof (induction u arbitrary: u')
  case Nil
  then show ?case by (cases u') auto
next
  case (Cons c cs)
  then show ?case by (cases u') auto
qed

text \<open>
  Claim C2, as stated: key derivation is deterministic and, within one scope, injective
  on the tuples (userId, actionId, guildId), with no restriction on the characters of
  the ids. The code joins the ids with hyphens and leaves out the ids a scope does not
  use, so two distinct tuples of one scope can derive one key: a hyphen can move between
  userId and actionId, and the global scope ignores the userId.
\<close>

theorem getKey_collisions_within_scope:
  "getKey ''perUser'' ''a-b'' ''c'' None = getKey ''perUser'' ''a'' ''b-c'' None
   \<and> (''a-b'', ''c'') \<noteq> (''a'', ''b-c'')
   \<and> getKey ''global'' ''u1'' ''command_ping'' None = getKey ''global'' ''u2'' ''command_ping'' None
   \<and> ''u1'' \<noteq> ''u2''"
  by (simp add: getKey_perUser getKey_global)

text \<open>
  Claim C2, amended: the key of a request depends on nothing but its cooldownType,
  userId, actionId and guildId; and when the user ids and guild ids contain no hyphen
  (and the guild id of a guild scope is present), two requests of one scope derive the
  same key exactly when they agree on the ids the scope's key is built from: userId and
  actionId for perUser; userId, guildId and actionId for perUserPerGuild; guildId and
  actionId for perGuild; the actionId alone for global.
\<close>

theorem getKey_deterministic_injective:
  assumes "CHR ''-'' \<notin> set u" and "CHR ''-'' \<notin> set u'"
    and "CHR ''-'' \<notin> set g" and "CHR ''-'' \<notin> set g'"
    and "g \<noteq> []" and "g' \<noteq> []"
  shows "(cooldownType r1 = cooldownType r2 \<and> userId r1 = userId r2
            \<and> actionId r1 = actionId r2 \<and> guildId r1 = guildId r2
          \<longrightarrow> getKeyFromCooldownUsage r1 = getKeyFromCooldownUsage r2)
     \<and> (getKey ''perUser'' u a x = getKey ''perUser'' u' a' x') = (u = u' \<and> a = a')
     \<and> (getKey ''perUserPerGuild'' u a (Some g) = getKey ''perUserPerGuild'' u' a' (Some g'))
         = (u = u' \<and> g = g' \<and> a = a')
     \<and> (getKey ''perGuild'' v a (Some g) = getKey ''perGuild'' v' a' (Some g'))
         = (g = g' \<and> a = a')
     \<and> (getKey ''global'' v a x = getKey ''global'' v' a' x') = (a = a')"
  using assms
  by (simp add: getKeyFromCooldownUsage_def getKey_perUser getKey_global getKey_perUserPerGuild
      getKey_perGuild falsy_def interpolate_def append_dash_inject)

theorem getKey_deterministic_injective_witness:
  "CHR ''-'' \<notin> set ''u1'' \<and> CHR ''-'' \<notin> set ''u2''
   \<and> CHR ''-'' \<notin> set ''g1'' \<and> CHR ''-'' \<notin> set ''g2'' \<and> ''g1'' \<noteq> [] \<and> ''g2'' \<noteq> []
   \<and> getKeyFromCooldownUsage perUserRequest
       = getKeyFromCooldownUsage (perUserRequest\<lparr> duration := None, errorMessage := Some ''wait'' \<rparr>)
   \<and> getKey ''perUser'' ''u1'' ''ping'' None \<noteq> getKey ''perUser'' ''u2'' ''ping'' (Some ''g1'')
   \<and> getKey ''perUserPerGuild'' ''u1'' ''ping'' (Some ''g1'')
       \<noteq> getKey ''perUserPerGuild'' ''u2'' ''ping'' (Some ''g2'')
   \<and> getKey ''perGuild'' ''u1'' ''ping'' (Some ''g1'') \<noteq> getKey ''perGuild'' ''u2'' ''ping'' (Some ''g2'')
   \<and> getKey ''global'' ''u1'' ''ping'' None = getKey ''global'' ''u2'' ''ping'' (Some ''g1'')"
proof -
  have h: "CHR ''-'' \<notin> set ''u1''" "CHR ''-'' \<notin> set ''u2''"
    "CHR ''-'' \<notin> set ''g1''" "CHR ''-'' \<notin> set ''g2''" "''g1'' \<noteq> []" "''g2'' \<noteq> []"
    by simp_all
  show ?thesis
    using getKey_deterministic_injective [OF h, where ?r1.0 = perUserRequest
      and ?r2.0 = "perUserRequest\<lparr> duration := None, errorMessage := Some ''wait'' \<rparr>"
      and a = "''ping''" and a' = "''ping''" and x = None and x' = "Some ''g1''"
      and v = "''u1''" and v' = "''u2''"]
    by simp
qed

lemma verifyCooldown_10s: "verifyCooldown (DString ''10 s'') = Inr (Fin 10)"
  by code_simp

lemma renderTime_9: "renderTime (Fin 9) = ''9s''"
  by code_simp

lemma start_perUserRequest_freshState:
  "start 0 perUserRequest freshState
     = (Inr (), freshState\<lparr> this_cooldowns := [Some ''u-a'' \<mapsto> Date 10000] \<rparr>)"
  by (simp add: start_def perUserRequest_def freshState_def new_Cooldowns_def defaultConfig_def
      canBypass_def cooldownTypes_def verifyCooldown_10s getKey_perUser orElse_def
      getSeconds_def setSeconds_def SecFromTime_def trunc_def TimeClip_def js_ge_def Let_def)

text \<open>
  Claim C10: key derivation is not injective across scopes. A global request whose
  actionId is \<open>u-a\<close> and a perUser request of user \<open>u\<close> for action \<open>a\<close> derive the same
  key, so the window started by one is seen by \<^verbatim>\<open>canRunAction\<close> of the other and
  removed by \<^verbatim>\<open>cancelCooldown\<close> of the other.
\<close>

theorem getKey_collides_across_scopes:
  "getKey ''global'' v (u @ ''-'' @ a) g = getKey ''perUser'' u a g'
   \<and> getKey ''global'' ''v'' ''u-a'' None = Inr (Some ''u-a'')
   \<and> getKey ''perUser'' ''u'' ''a'' None = Inr (Some ''u-a'')
   \<and> fst (canRunAction 1000 globalRequest freshState) = Inr Allowed
   \<and> fst (canRunAction 1000 globalRequest (snd (start 0 perUserRequest freshState)))
       = Inr (Denied ''Please wait 9s before doing that again.'')
   \<and> this_cooldowns (snd (start 0 perUserRequest freshState)) (Some ''u-a'') = Some (Date 10000)
   \<and> this_cooldowns (snd (cancelCooldown globalRequest (snd (start 0 perUserRequest freshState))))
        (Some ''u-a'') = None
   \<and> fst (canRunAction 1000 perUserRequest
            (snd (cancelCooldown globalRequest (snd (start 0 perUserRequest freshState)))))
       = Inr Allowed"
proof -
  let ?s1 = "freshState\<lparr> this_cooldowns := [Some ''u-a'' \<mapsto> Date 10000] \<rparr>"
  have s1: "snd (start 0 perUserRequest freshState) = ?s1"
    by (simp add: start_perUserRequest_freshState)
  have c: "snd (cancelCooldown globalRequest ?s1)
             = ?s1\<lparr> this_cooldowns := (this_cooldowns ?s1)(Some ''u-a'' := None),
                    cooldownSchema := (cooldownSchema ?s1)(Some ''u-a'' := None) \<rparr>"
    by (simp add: cancelCooldown_def getKeyFromCooldownUsage_def globalRequest_def
        getKey_global deleteOne_def)
  have k1: "getKey ''global'' v (u @ ''-'' @ a) g = getKey ''perUser'' u a g'"
    by (simp add: getKey_perUser getKey_global)
  have k2: "getKey ''global'' ''v'' ''u-a'' None = Inr (Some ''u-a'')"
    by (simp add: getKey_global)
  have k3: "getKey ''perUser'' ''u'' ''a'' None = Inr (Some ''u-a'')"
    by (simp add: getKey_perUser)
  have a0: "fst (canRunAction 1000 globalRequest freshState) = Inr Allowed"
    by (simp add: canRunAction_def globalRequest_def freshState_def new_Cooldowns_def
        defaultConfig_def canBypass_def getKey_global)
  have a1: "fst (canRunAction 1000 globalRequest ?s1)
              = Inr (Denied ''Please wait 9s before doing that again.'')"
    by (simp add: canRunAction_def globalRequest_def freshState_def new_Cooldowns_def
        defaultConfig_def canBypass_def getKey_global orElse_def getTime_def js_gt_def
        secondsBetween_def js_sub_def renderTime_9)
  have a2: "this_cooldowns ?s1 (Some ''u-a'') = Some (Date 10000)"
    by simp
  have a3: "this_cooldowns (snd (cancelCooldown globalRequest ?s1)) (Some ''u-a'') = None"
    unfolding c by simp
  have a4: "fst (canRunAction 1000 perUserRequest (snd (cancelCooldown globalRequest ?s1)))
              = Inr Allowed"
    unfolding c
    by (simp add: canRunAction_def perUserRequest_def freshState_def new_Cooldowns_def
        defaultConfig_def canBypass_def getKey_perUser)
  show ?thesis
    unfolding s1 using k1 k2 k3 a0 a1 a2 a3 a4 by blast
qed

subsection \<open>Bypass and the durable collection\<close>

text \<open>
  Claim C7: for a user who can bypass (the bypass flag is set and the user is a bot
  owner), \<^verbatim>\<open>canRunAction\<close> returns \<^verbatim>\<open>true\<close> whatever windows exist, and
  \<^verbatim>\<open>start\<close> returns without creating a window: the cache and the durable collection
  are as before.
\<close>

theorem bypass_allowed_and_start_noop:
  assumes "canBypass this (userId r)"
  shows "canRunAction now r this = (Inr Allowed, this) \<and> start now r this = (Inr (), this)"
  using assms by (simp add: canRunAction_def start_def)

theorem bypass_allowed_and_start_noop_witness:
  "canBypass ownerState (userId ownerRequest)
   \<and> this_cooldowns ownerState (Some ''owner-command_ping'') = Some (Date 5000)
   \<and> getKeyFromCooldownUsage ownerRequest = Inr (Some ''owner-command_ping'')
   \<and> canRunAction 1000 ownerRequest ownerState = (Inr Allowed, ownerState)
   \<and> start 1000 ownerRequest ownerState = (Inr (), ownerState)"
proof -
  have b: "canBypass ownerState (userId ownerRequest)"
    by (simp add: canBypass_def ownerState_def ownerRequest_def new_Cooldowns_def)
  have w: "this_cooldowns ownerState (Some ''owner-command_ping'') = Some (Date 5000)"
    by (simp add: ownerState_def)
  have k: "getKeyFromCooldownUsage ownerRequest = Inr (Some ''owner-command_ping'')"
    by (simp add: getKeyFromCooldownUsage_def ownerRequest_def getKey_perUser)
  show ?thesis using b w k bypass_allowed_and_start_noop [OF b] by simp
qed

text \<open>
  Claim C8: \<^verbatim>\<open>canRunAction\<close> performs no operation on the durable collection. Whatever
  the request and the outcome (allowed, lazy expiry, denial, or an exception), the
  collection after the call is the collection before it; the only field of the state that
  can differ is the cache.
\<close>

theorem canRunAction_leaves_durable_store:
  "cooldownSchema (snd (canRunAction now r this)) = cooldownSchema this
   \<and> snd (canRunAction now r this)
       = this\<lparr> this_cooldowns := this_cooldowns (snd (canRunAction now r this)) \<rparr>"
  by (simp add: canRunAction_def split: sum.splits option.splits)

subsection \<open>The remaining time\<close>

text \<open>
  The source computes on the fractional number of seconds \<open>ms / 1000\<close> with floating
  division, remainder and floor. On a remaining time of \<open>n \<ge> 0\<close> milliseconds this is
  integer division on the whole seconds \<open>n div 1000\<close>.
\<close>

lemma trunc_nonneg: "0 \<le> q \<Longrightarrow> trunc q = \<lfloor>q\<rfloor>"
  by (simp add: trunc_def)

lemma floor_ms_div:
  fixes n c :: int
  assumes "0 < c"
  shows "\<lfloor>(of_int n / 1000 / of_int c :: rat)\<rfloor> = n div (1000 * c)"
proof -
  have "(of_int n / 1000 / of_int c :: rat) = of_int n / of_int (1000 * c)"
    by simp
  then show ?thesis
    by (simp only: floor_divide_of_int_eq)
qed

lemma js_rem_ms:
  fixes n c :: int
  assumes "0 \<le> n" and "0 < c"
  shows "js_rem (Fin (of_int n / 1000)) (of_int c) = Fin (of_int (n mod (1000 * c)) / 1000)"
proof -
  have nn: "(0::rat) \<le> of_int n / 1000 / of_int c"
    using assms by simp
  have tr: "trunc (of_int n / 1000 / of_int c) = n div (1000 * c)"
    by (simp only: trunc_nonneg [OF nn] floor_ms_div [OF assms(2)])
  have "(of_int n / 1000 :: rat) - of_int c * of_int (n div (1000 * c))
          = (of_int n - of_int ((1000 * c) * (n div (1000 * c)))) / 1000"
    by (simp add: field_simps)
  also have "of_int n - of_int ((1000 * c) * (n div (1000 * c))) = (of_int (n mod (1000 * c)) :: rat)"
    by (simp only: of_int_diff [symmetric] minus_mult_div_eq_mod)
  finally have "(of_int n / 1000 :: rat) - of_int c * of_int (n div (1000 * c))
          = of_int (n mod (1000 * c)) / 1000" .
  then show ?thesis
    by (simp only: js_rem.simps tr)
qed

lemma Math_floor_ms_div:
  fixes n c :: int
  assumes "0 < c"
  shows "Math_floor (js_div (Fin (of_int n / 1000)) (of_int c)) = Fin (of_int (n div (1000 * c)))"
  using floor_ms_div [OF assms, of n] by simp

lemma Math_floor_ms:
  fixes n :: int
  shows "Math_floor (Fin (of_int n / 1000)) = Fin (of_int (n div 1000))"
proof -
  have "\<lfloor>(of_int n / of_int 1000 :: rat)\<rfloor> = n div 1000"
    by (rule floor_divide_of_int_eq)
  then show ?thesis by simp
qed

lemma mod_mult_div_int:
  fixes n b c :: int
  assumes "0 < b" and "0 \<le> c"
  shows "n mod (b * c) div b = n div b mod c"
proof -
  have "n mod (b * c) = b * (n div b mod c) + n mod b"
    using assms by (simp add: zmod_zmult2_eq)
  then show ?thesis
    using assms by simp
qed

lemma ms_div_mod:
  fixes n k c :: int
  assumes "0 < k" and "0 < c"
  shows "n mod (1000 * k) div (1000 * c) = n div 1000 mod k div c"
proof -
  have "n mod (1000 * k) div (1000 * c) = n mod (1000 * k) div 1000 div c"
    by (rule zdiv_zmult2_eq) (use assms in simp)
  also have "n mod (1000 * k) div 1000 = n div 1000 mod k"
    by (rule mod_mult_div_int) (use assms in simp_all)
  finally show ?thesis .
qed

lemma js_toString_int: "0 \<le> d \<Longrightarrow> js_toString (Fin (of_int d)) = digitsOf (nat d)"
  by simp

lemma js_gt_int_zero: "js_gt (Fin (of_int d)) (Fin 0) = (0 < d)"
  by (simp add: js_gt_def)

lemma renderTime_ms:
  fixes n :: int
  assumes "0 \<le> n"
  shows "renderTime (Fin (of_int n / 1000)) = renderUnits (n div 1000)"
proof -
  let ?T = "n div 1000"
  have d: "Math_floor (js_div (Fin (of_int n / 1000)) (3600 * 24)) = Fin (of_int (?T div 86400))"
    using Math_floor_ms_div [of 86400 n] by (simp add: zdiv_zmult2_eq)
  have r1: "js_rem (Fin (of_int n / 1000)) (3600 * 24) = Fin (of_int (n mod 86400000) / 1000)"
    using js_rem_ms [OF assms, of 86400] by simp
  have r2: "js_rem (Fin (of_int n / 1000)) 3600 = Fin (of_int (n mod 3600000) / 1000)"
    using js_rem_ms [OF assms, of 3600] by simp
  have r3: "js_rem (Fin (of_int n / 1000)) 60 = Fin (of_int (n mod 60000) / 1000)"
    using js_rem_ms [OF assms, of 60] by simp
  have i1: "n mod 86400000 div 3600000 = ?T mod 86400 div 3600"
    using ms_div_mod [of 86400 3600 n] by simp
  have i2: "n mod 3600000 div 60000 = ?T mod 3600 div 60"
    using ms_div_mod [of 3600 60 n] by simp
  have i3: "n mod 60000 div 1000 = ?T mod 60"
    using mod_mult_div_int [of 1000 60 n] by simp
  have h: "Math_floor (js_div (Fin (of_int (n mod 86400000) / 1000)) 3600)
             = Fin (of_int (?T mod 86400 div 3600))"
    using Math_floor_ms_div [of 3600 "n mod 86400000"] by (simp add: i1)
  have m: "Math_floor (js_div (Fin (of_int (n mod 3600000) / 1000)) 60)
             = Fin (of_int (?T mod 3600 div 60))"
    using Math_floor_ms_div [of 60 "n mod 3600000"] by (simp add: i2)
  have s: "Math_floor (Fin (of_int (n mod 60000) / 1000)) = Fin (of_int (?T mod 60))"
    using Math_floor_ms [of "n mod 60000"] by (simp add: i3)
  have T: "0 \<le> ?T"
    using assms by (simp only: pos_imp_zdiv_nonneg_iff [of 1000 n, simplified])
  have nn: "0 \<le> ?T div 86400" "0 \<le> ?T mod 86400 div 3600" "0 \<le> ?T mod 3600 div 60"
    "0 \<le> ?T mod 60"
    using T by (simp_all only: pos_imp_zdiv_nonneg_iff [of 86400, simplified]
        pos_imp_zdiv_nonneg_iff [of 3600, simplified] pos_imp_zdiv_nonneg_iff [of 60, simplified]
        pos_mod_sign [of 86400, simplified] pos_mod_sign [of 3600, simplified]
        pos_mod_sign [of 60, simplified])
  have shape: "\<And>a b c (x::string) y z w.
      (if c then (if b then (if a then x else []) @ y else if a then x else []) @ z
       else if b then (if a then x else []) @ y else if a then x else []) @ w
      = (if a then x else []) @ (if b then y else []) @ (if c then z else []) @ w"
    by simp
  show ?thesis
    by (simp only: renderTime_def renderUnits_def Let_def r1 r2 r3 d h m s js_gt_int_zero
        js_toString_int [OF nn(1)] js_toString_int [OF nn(2)] js_toString_int [OF nn(3)]
        js_toString_int [OF nn(4)] append_Nil shape)
qed


lemma verifyCooldown_10m: "verifyCooldown (DString ''10 m'') = Inr (Fin 600)"
  by code_simp

lemma start_longRequest_freshState: "start 0 longRequest freshState = (Inr (), windowState)"
  by (simp add: start_def longRequest_def perUserRequest_def freshState_def new_Cooldowns_def
      defaultConfig_def canBypass_def cooldownTypes_def verifyCooldown_10m getKey_perUser
      orElse_def getSeconds_def setSeconds_def SecFromTime_def trunc_def TimeClip_def js_ge_def
      findOneAndUpdate_def windowState_def Let_def)

lemma secondsBetween_Date: "secondsBetween (Date e) now = Fin (of_int (e - now) / 1000)"
  by (simp add: secondsBetween_def js_sub_def getTime_def)

lemma js_gt_now_Date: "js_gt (Fin (of_int now)) (getTime (Date e)) = (e < now)"
  by (simp add: js_gt_def getTime_def)

lemma perUserRequest_key:
  "getKey (cooldownType perUserRequest) (userId perUserRequest) (actionId perUserRequest)
     (Some (orElse (guildId perUserRequest) [])) = Inr (Some ''u-a'')"
  by (simp add: perUserRequest_def getKey_perUser)

lemma canBypass_update [simp]:
  "canBypass (this\<lparr> this_cooldowns := c \<rparr>) uid = canBypass this uid"
  "canBypass (this\<lparr> cooldownSchema := d \<rparr>) uid = canBypass this uid"
  "canBypass (this\<lparr> cooldownSchema_rejects := b \<rparr>) uid = canBypass this uid"
  by (simp_all add: canBypass_def)

lemma freshState_no_bypass: "\<not> canBypass freshState uid"
  by (simp add: canBypass_def freshState_def new_Cooldowns_def defaultConfig_def)

lemma renderUnits_0: "renderUnits 0 = ''0s''"
  by code_simp

lemma canRunAction_active_window:
  assumes "\<not> canBypass this (userId r)"
    and "getKey (cooldownType r) (userId r) (actionId r) (Some (orElse (guildId r) [])) = Inr k"
    and "this_cooldowns this k = Some (Date e)"
    and "now \<le> e"
  shows "canRunAction now r this
           = (Inr (Denied (js_replace (orElse (errorMessage r) (this_errorMessage this)) ''{TIME}''
                             (renderUnits ((e - now) div 1000)))),
              this)"
proof -
  have "\<not> e < now" using assms(4) by simp
  moreover have "renderTime (secondsBetween (Date e) now) = renderUnits ((e - now) div 1000)"
    using assms(4) by (simp only: secondsBetween_Date renderTime_ms diff_ge_0_iff_ge)
  ultimately show ?thesis
    using assms(1-3) by (simp add: canRunAction_def js_gt_now_Date)
qed

text \<open>
  Claim C3, as stated: a zero-valued unit that follows a nonzero larger unit is still
  rendered, so that one day and thirty seconds reads \<open>1d 0h 0m 30s\<close>. The code tests
  each of days, hours and minutes on its own and leaves out every one that is zero: one
  day and thirty seconds reads \<open>1d 30s\<close>.
\<close>

theorem canRunAction_omits_inner_zero_units:
  "fst (canRunAction 0 perUserRequest dayState)
     = Inr (Denied ''Please wait 1d 30s before doing that again.'')
   \<and> fst (canRunAction 0 perUserRequest dayState)
     \<noteq> Inr (Denied ''Please wait 1d 0h 0m 30s before doing that again.'')"
proof -
  have nb: "\<not> canBypass dayState (userId perUserRequest)"
    by (simp add: dayState_def freshState_no_bypass)
  have w: "this_cooldowns dayState (Some ''u-a'') = Some (Date 86430000)"
    by (simp add: dayState_def)
  have t: "orElse (errorMessage perUserRequest) (this_errorMessage dayState)
             = ''Please wait {TIME} before doing that again.''"
    by (simp add: orElse_def perUserRequest_def dayState_def freshState_def new_Cooldowns_def
        defaultConfig_def)
  have r: "secondsBetween (Date 86430000) 0 = Fin 86430"
    by (simp add: secondsBetween_Date)
  have "renderTime (Fin 86430) = ''1d 30s''"
    by code_simp
  then show ?thesis
    using nb w by (simp add: canRunAction_def perUserRequest_key js_gt_def getTime_def t r)
qed

text \<open>
  Claim C3, amended: when \<^verbatim>\<open>canRunAction\<close> finds a window that has not expired
  (\<open>now \<le> expires\<close>) and the user does not bypass, it returns the error message of the
  request, or else the configured one, with the first \<^verbatim>\<open>{TIME}\<close> replaced by the
  remaining time: the whole remaining seconds split by floor division into days, hours,
  minutes and seconds, each of days, hours and minutes printed only when it is not zero
  (wherever it stands), the seconds always printed. The state is unchanged.
\<close>

theorem canRunAction_denial_message:
  assumes "\<not> canBypass this (userId r)"
    and "getKey (cooldownType r) (userId r) (actionId r) (Some (orElse (guildId r) [])) = Inr k"
    and "this_cooldowns this k = Some (Date e)"
    and "now \<le> e"
  shows "canRunAction now r this
           = (Inr (Denied (js_replace (orElse (errorMessage r) (this_errorMessage this)) ''{TIME}''
                             (renderUnits ((e - now) div 1000)))),
              this)"
  using assms by (rule canRunAction_active_window)

theorem canRunAction_denial_message_witness:
  "\<not> canBypass dayState (userId perUserRequest)
   \<and> this_cooldowns dayState (Some ''u-a'') = Some (Date 86430000)
   \<and> (400::int) \<le> 86430000
   \<and> canRunAction 400 perUserRequest dayState
       = (Inr (Denied ''Please wait 1d 29s before doing that again.''), dayState)"
proof -
  have nb: "\<not> canBypass dayState (userId perUserRequest)"
    by (simp add: dayState_def freshState_no_bypass)
  have w: "this_cooldowns dayState (Some ''u-a'') = Some (Date 86430000)"
    by (simp add: dayState_def)
  have le: "(400::int) \<le> 86430000" by simp
  have t: "orElse (errorMessage perUserRequest) (this_errorMessage dayState)
             = ''Please wait {TIME} before doing that again.''"
    by (simp add: orElse_def perUserRequest_def dayState_def freshState_def new_Cooldowns_def
        defaultConfig_def)
  have r: "renderUnits 86429 = ''1d 29s''"
    by code_simp
  show ?thesis
    using nb w canRunAction_denial_message [OF nb perUserRequest_key w le]
    by (simp add: t r)
qed

subsection \<open>Expiry\<close>

text \<open>
  Claim C1, as stated: at any time greater than or equal to the expiry, and in particular
  at the instant the clock equals the expiry, \<^verbatim>\<open>canRunAction\<close> allows the action and
  removes the entry. The code compares \<^verbatim>\<open>now > expires\<close>: at the instant of expiry
  the action is still denied, with \<open>0s\<close> remaining, and the entry stays.
\<close>

theorem canRunAction_at_expiry_denied:
  "canRunAction 600000 perUserRequest windowState
     = (Inr (Denied ''Please wait 0s before doing that again.''), windowState)
   \<and> this_cooldowns windowState (Some ''u-a'') = Some (Date 600000)
   \<and> canRunAction 6000 ownerRequest ownerState = (Inr Allowed, ownerState)
   \<and> this_cooldowns ownerState (Some ''owner-command_ping'') = Some (Date 5000)"
proof -
  have ob: "canBypass ownerState (userId ownerRequest)"
    by (simp add: canBypass_def ownerState_def ownerRequest_def new_Cooldowns_def)
  have oa: "canRunAction 6000 ownerRequest ownerState = (Inr Allowed, ownerState)"
    using ob by (simp add: canRunAction_def)
  have ow: "this_cooldowns ownerState (Some ''owner-command_ping'') = Some (Date 5000)"
    by (simp add: ownerState_def)
  have nb: "\<not> canBypass windowState (userId perUserRequest)"
    by (simp add: windowState_def freshState_no_bypass)
  have w: "this_cooldowns windowState (Some ''u-a'') = Some (Date 600000)"
    by (simp add: windowState_def)
  have t: "orElse (errorMessage perUserRequest) (this_errorMessage windowState)
             = ''Please wait {TIME} before doing that again.''"
    by (simp add: orElse_def perUserRequest_def windowState_def freshState_def new_Cooldowns_def
        defaultConfig_def)
  show ?thesis
    using canRunAction_active_window [OF nb perUserRequest_key w, of 600000] w oa ow
    by (simp add: t renderUnits_0)
qed


text \<open>
  Claim C1, amended: for a request whose user does not bypass and whose key has a window,
  \<^verbatim>\<open>canRunAction\<close> at any time strictly greater than the expiry returns \<^verbatim>\<open>true\<close>
  and removes the entry from the cache; a further call with the same request, at any
  time, returns \<^verbatim>\<open>true\<close> again and changes nothing, whatever record the durable
  collection (which neither call reads or writes) holds for the key.
\<close>

theorem canRunAction_after_expiry:
  assumes "\<not> canBypass this (userId r)"
    and "getKey (cooldownType r) (userId r) (actionId r) (Some (orElse (guildId r) [])) = Inr k"
    and "this_cooldowns this k = Some (Date e)"
    and "e < now"
  shows "canRunAction now r this
           = (Inr Allowed, this\<lparr> this_cooldowns := (this_cooldowns this)(k := None) \<rparr>)
     \<and> canRunAction now' r (this\<lparr> this_cooldowns := (this_cooldowns this)(k := None) \<rparr>)
           = (Inr Allowed, this\<lparr> this_cooldowns := (this_cooldowns this)(k := None) \<rparr>)
     \<and> cooldownSchema (this\<lparr> this_cooldowns := (this_cooldowns this)(k := None) \<rparr>)
           = cooldownSchema this"
  using assms by (simp add: canRunAction_def js_gt_now_Date)

theorem canRunAction_after_expiry_witness:
  "\<not> canBypass windowState (userId perUserRequest)
   \<and> this_cooldowns windowState (Some ''u-a'') = Some (Date 600000)
   \<and> cooldownSchema windowState (Some ''u-a'') = Some (Date 600000)
   \<and> (600000::int) < 600001
   \<and> canRunAction 600001 perUserRequest windowState
       = (Inr Allowed, windowState\<lparr> this_cooldowns := Map.empty \<rparr>)
   \<and> canRunAction 600002 perUserRequest (windowState\<lparr> this_cooldowns := Map.empty \<rparr>)
       = (Inr Allowed, windowState\<lparr> this_cooldowns := Map.empty \<rparr>)
   \<and> cooldownSchema (windowState\<lparr> this_cooldowns := Map.empty \<rparr>) (Some ''u-a'')
       = Some (Date 600000)"
proof -
  have nb: "\<not> canBypass windowState (userId perUserRequest)"
    by (simp add: windowState_def freshState_no_bypass)
  have w: "this_cooldowns windowState (Some ''u-a'') = Some (Date 600000)"
    by (simp add: windowState_def)
  have d: "cooldownSchema windowState (Some ''u-a'') = Some (Date 600000)"
    by (simp add: windowState_def)
  have lt: "(600000::int) < 600001" by simp
  have e: "(this_cooldowns windowState)(Some ''u-a'' := None) = Map.empty"
    by (simp add: windowState_def)
  show ?thesis
    using nb w d canRunAction_after_expiry [OF nb perUserRequest_key w lt, of 600002]
    by (simp add: e)
qed

subsection \<open>Durations\<close>

text \<open>The units \<^verbatim>\<open>verifyCooldown\<close> lets through, and the examples of the specification.\<close>

lemma truthy_cooldownDurations:
  "truthy (cooldownDurations t)
     = (t = ''s'' \<or> t = ''m'' \<or> t = ''h'' \<or> t = ''d'' \<or> t = ''constructor'' \<or> t = ''__proto__'')"
  by (simp add: cooldownDurations_def)

lemma verifyCooldown_examples:
  "verifyCooldown (DString ''10 m'') = Inr (Fin 600)"
  "verifyCooldown (DString ''1 d'') = Inr (Fin 86400)"
  "verifyCooldown (DString ''0 s'') = Inl InvalidQuantity"
  "verifyCooldown (DString ''10 x'') = Inl UnknownDurationType"
  "verifyCooldown (DString ''10'') = Inl InvalidDuration"
  "verifyCooldown (DNumber (Fin 45)) = Inr (Fin 45)"
  "verifyCooldown (DString ''2 H'') = Inr (Fin 7200)"
  by code_simp+

text \<open>
  A string of two tokens whose unit is one of the four, in either case, gives the quantity
  times the unit's seconds unless the quantity is \<^verbatim>\<open><= 0\<close>.
\<close>

lemma split_space_word: "CHR '' '' \<notin> set w \<Longrightarrow> split_space w = [w]"
  by (induction w) auto

lemma split_space_two:
  "CHR '' '' \<notin> set a \<Longrightarrow> CHR '' '' \<notin> set b \<Longrightarrow> split_space (a @ CHR '' '' # b) = [a, b]"
  by (induction a) (auto simp add: split_space_word)

lemma verifyCooldown_quantity_unit:
  assumes "CHR '' '' \<notin> set qs" and "CHR '' '' \<notin> set us"
    and "map_of [(''s'', 1), (''m'', 60), (''h'', 3600), (''d'', 86400)] (toLowerCase us) = Some n"
  shows "verifyCooldown (DString (qs @ '' '' @ us))
           = (if js_le (toNumber qs) (Fin 0) then Inl InvalidQuantity
              else Inr (js_mul (toNumber qs) (Fin n)))"
proof -
  note sp = split_space_two [OF assms(1,2)]
  have "cooldownDurations (toLowerCase us) = JNumber (Fin n) \<and> n \<noteq> 0"
    using assms(3) by (auto simp add: cooldownDurations_def split: if_splits)
  then show ?thesis
    by (simp add: verifyCooldown.simps sp Let_def)
qed

lemma MalformedDurationError_cases:
  "MalformedDurationError InvalidDuration" "MalformedDurationError UnknownDurationType"
  "MalformedDurationError InvalidQuantity"
  by (simp_all add: MalformedDurationError_def)

text \<open>
  Claim C4: \<^verbatim>\<open>verifyCooldown\<close> fails exactly when the string is not two tokens, the
  quantity is not positive or the unit is not one of \<open>s\<close>, \<open>m\<close>, \<open>h\<close>, \<open>d\<close>. The
  examples of the claim hold (\<open>verifyCooldown_examples\<close>), but the unit is looked up with
  a property read, which also finds what the table inherits from \<^verbatim>\<open>Object.prototype\<close>:
  for the units \<open>constructor\<close> and \<open>__proto__\<close> the call does not fail and returns
  \<open>NaN\<close>, although the code's own error message lists only the four keys as valid.
  A quantity that is not a number passes the test \<^verbatim>\<open>quantity <= 0\<close> as \<open>NaN\<close> too.
\<close>

theorem verifyCooldown_inherited_unit:
  "verifyCooldown (DString ''10 constructor'') = Inr NaN
   \<and> verifyCooldown (DString ''10 __proto__'') = Inr NaN
   \<and> verifyCooldown (DString ''abc m'') = Inr NaN
   \<and> length (split_space ''10 constructor'') = 2
   \<and> toNumber ''10'' = Fin 10
   \<and> ''constructor'' \<notin> set [''s'', ''m'', ''h'', ''d'']"
  by code_simp

subsection \<open>The storage policy\<close>












subsection \<open>Guild scopes outside a guild\<close>

text \<open>
  Claim C6, as stated: for a request of scope perUserPerGuild or perGuild without a guild
  id, each of the four methods fails with the invalid-scope error. \<^verbatim>\<open>start\<close> parses
  the duration before it derives the key, so with a malformed duration it fails with the
  duration's error instead.
\<close>

theorem start_guild_scope_duration_first:
  "fst (start 0 (guildRequest\<lparr> duration := Some (DString ''10 x'') \<rparr>) freshState)
     = Inl UnknownDurationType
   \<and> \<not> InvalidScopeError UnknownDurationType
   \<and> cooldownType guildRequest = ''perGuild'' \<and> guildId guildRequest = None"
proof -
  have "verifyCooldown (DString ''10 x'') = Inl UnknownDurationType"
    by code_simp
  then show ?thesis
    by (simp add: start_def guildRequest_def freshState_no_bypass cooldownTypes_def
        InvalidScopeError_def)
qed

text \<open>
  Claim C6, amended: for a request of scope perUserPerGuild or perGuild whose guild id is
  absent or empty, and whose user does not bypass, \<^verbatim>\<open>canRunAction\<close>,
  \<^verbatim>\<open>cancelCooldown\<close> and \<^verbatim>\<open>updateCooldown\<close> fail with the invalid-scope error
  and leave the state as it was; \<^verbatim>\<open>start\<close> fails too and leaves the cache and the
  durable collection as they were, with the invalid-scope error when its duration is
  well-formed, and with the duration's own error otherwise.
\<close>

theorem guild_scope_without_guild_fails:
  assumes "cooldownType r = ''perUserPerGuild'' \<or> cooldownType r = ''perGuild''"
    and "falsy (guildId r)"
    and "\<not> canBypass this (userId r)"
  shows "canRunAction now r this = (Inl UsedOutsideGuild, this)
     \<and> cancelCooldown r this = (Inl UsedOutsideGuild, this)
     \<and> updateCooldown now r expires this = (Inl UsedOutsideGuild, this)
     \<and> start now r this
         = (Inl (case duration r of
                   None \<Rightarrow> TypeError
                 | Some dur \<Rightarrow>
                     (case verifyCooldown dur of Inl e \<Rightarrow> e | Inr seconds \<Rightarrow> UsedOutsideGuild)),
            this)
     \<and> ((\<exists>dur seconds. duration r = Some dur \<and> verifyCooldown dur = Inr seconds)
          \<longrightarrow> start now r this = (Inl UsedOutsideGuild, this))
     \<and> InvalidScopeError UsedOutsideGuild"
proof -
  have k1: "getKey (cooldownType r) (userId r) (actionId r) (guildId r) = Inl UsedOutsideGuild"
    using assms(1,2) by (auto simp add: getKey_perUserPerGuild getKey_perGuild)
  have f: "falsy (Some (orElse (guildId r) []))"
    using assms(2) by (auto simp add: falsy_def orElse_def)
  have k2: "getKey (cooldownType r) (userId r) (actionId r) (Some (orElse (guildId r) []))
              = Inl UsedOutsideGuild"
    using assms(1) f by (auto simp add: getKey_perUserPerGuild getKey_perGuild)
  have ty: "cooldownType r \<in> set cooldownTypes"
    using assms(1) by (auto simp add: cooldownTypes_def)
  have c: "canRunAction now r this = (Inl UsedOutsideGuild, this)"
    using assms(3) by (simp add: canRunAction_def k2)
  have d: "cancelCooldown r this = (Inl UsedOutsideGuild, this)"
    by (simp add: cancelCooldown_def getKeyFromCooldownUsage_def k1)
  have u: "updateCooldown now r expires this = (Inl UsedOutsideGuild, this)"
    by (simp add: updateCooldown_def getKeyFromCooldownUsage_def k1)
  have s: "start now r this
         = (Inl (case duration r of
                   None \<Rightarrow> TypeError
                 | Some dur \<Rightarrow>
                     (case verifyCooldown dur of Inl e \<Rightarrow> e | Inr seconds \<Rightarrow> UsedOutsideGuild)),
            this)"
    using assms(3) ty by (simp add: start_def k2 split: option.splits sum.splits)
  have s': "(\<exists>dur seconds. duration r = Some dur \<and> verifyCooldown dur = Inr seconds)
          \<longrightarrow> start now r this = (Inl UsedOutsideGuild, this)"
    unfolding s by auto
  show ?thesis
    using c d u s s' by (simp add: InvalidScopeError_def)
qed


theorem guild_scope_without_guild_fails_witness:
  "(cooldownType guildRequest = ''perUserPerGuild'' \<or> cooldownType guildRequest = ''perGuild'')
   \<and> falsy (guildId guildRequest)
   \<and> \<not> canBypass freshState (userId guildRequest)
   \<and> canRunAction 0 guildRequest freshState = (Inl UsedOutsideGuild, freshState)
   \<and> cancelCooldown guildRequest freshState = (Inl UsedOutsideGuild, freshState)
   \<and> updateCooldown 0 guildRequest (Date 600000) freshState = (Inl UsedOutsideGuild, freshState)
   \<and> start 0 guildRequest freshState = (Inl UsedOutsideGuild, freshState)
   \<and> InvalidScopeError UsedOutsideGuild"
proof -
  have ty: "cooldownType guildRequest = ''perUserPerGuild'' \<or> cooldownType guildRequest = ''perGuild''"
    by (simp add: guildRequest_def)
  have g: "falsy (guildId guildRequest)"
    by (simp add: guildRequest_def falsy_def)
  have nb: "\<not> canBypass freshState (userId guildRequest)"
    by (rule freshState_no_bypass)
  have du: "duration guildRequest = Some (DString ''10 m'')"
    by (simp add: guildRequest_def)
  show ?thesis
    using ty g nb guild_scope_without_guild_fails [OF ty g nb, of 0 "Date 600000"]
    by (simp add: du verifyCooldown_10m)
qed

subsection \<open>Numeric durations\<close>







end
